theory Spec2Isabelle
  imports Complex_Main "HOL-Library.Sublist"
begin

section \<open>JavaScript values used by the front end\<close>

subsection \<open>Strings\<close>

text \<open>
  A JavaScript string is modelled as a list of code units below 256, read as Basic Latin
  and Latin-1 Supplement (U+0000 .. U+00FF). Text with code units above U+00FF is outside
  the model. In that range \<^verbatim>\<open>String.prototype.toLowerCase\<close> maps A..Z (65..90) and the
  Latin-1 capitals U+00C0..U+00DE without the multiplication sign U+00D7 to the code unit
  32 above, and leaves every other code unit alone.
\<close>

definition toLowerCase_unit :: "char \<Rightarrow> char" where
  "toLowerCase_unit c =
     (let n = (of_char c :: nat) in
      if (65 \<le> n \<and> n \<le> 90) \<or> (192 \<le> n \<and> n \<le> 222 \<and> n \<noteq> 215)
      then char_of (n + 32) else c)"

definition toLowerCase :: "string \<Rightarrow> string" where
  "toLowerCase s = map toLowerCase_unit s"

text \<open>
  \<^verbatim>\<open>s.includes(k)\<close>: does \<open>k\<close> occur in \<open>s\<close> as a contiguous run of code units.
  \<open>startsWith s k\<close> tests the occurrence at position 0.
\<close>

fun startsWith :: "string \<Rightarrow> string \<Rightarrow> bool" where
  "startsWith s [] = True"
| "startsWith [] (k # ks) = False"
| "startsWith (c # cs) (k # ks) = (c = k \<and> startsWith cs ks)"

fun includes_str :: "string \<Rightarrow> string \<Rightarrow> bool" where
  "includes_str [] k = (k = [])"
| "includes_str (c # cs) k = (startsWith (c # cs) k \<or> includes_str cs k)"

text \<open>
  \<^verbatim>\<open>String.prototype.trim\<close> strips WhiteSpace and LineTerminator code units from both
  ends. Below 256 these are TAB, LF, VT, FF, CR, SPACE and NO-BREAK SPACE.
\<close>

definition isWhiteSpace :: "char \<Rightarrow> bool" where
  "isWhiteSpace c = ((of_char c :: nat) \<in> {9, 10, 11, 12, 13, 32, 160})"

definition trim :: "string \<Rightarrow> string" where
  "trim s = rev (dropWhile isWhiteSpace (rev (dropWhile isWhiteSpace s)))"

text \<open>
  Truthiness of an optional string field: \<^verbatim>\<open>undefined\<close>, \<^verbatim>\<open>null\<close> (both \<open>None\<close>) and
  the empty string are falsy, every other string is truthy.
\<close>

fun truthy :: "string option \<Rightarrow> bool" where
  "truthy None = False"
| "truthy (Some s) = (s \<noteq> [])"

text \<open>\<^verbatim>\<open>a || d\<close> for an optional string \<open>a\<close> and a string \<open>d\<close>.\<close>

fun orElse :: "string option \<Rightarrow> string \<Rightarrow> string" where
  "orElse None d = d"
| "orElse (Some s) d = (if s \<noteq> [] then s else d)"

subsection \<open>Repair plans\<close>

text \<open>
  The \<^verbatim>\<open>repair_plan\<close> object of an analysis result, with the fields the components read.
  \<open>step\<close> is the advisory step number of a step, a JSON number when it is there.
  An \<^verbatim>\<open>is_diy\<close> field that is missing reads as \<^verbatim>\<open>undefined\<close>, which is falsy, so it is
  modelled as \<open>False\<close>.
\<close>

record Step =
  step :: "int option"
  instruction :: string

record RepairPlan =
  diagnosis :: "string option"
  is_diy :: bool
  recommended_provider :: "string option"
  steps :: "Step list option"

subsection \<open>The back end, seen from the front end\<close>

text \<open>
  The HTTP back end is not part of the front end's code: every operation below takes the
  answer of an endpoint as a parameter. A rejected request (transport failure or an error
  status) is \<open>Inl\<close> of the error object, of which the components read
  \<^verbatim>\<open>error.response?.data?.detail\<close> and \<^verbatim>\<open>error.message\<close>.
\<close>

record ApiError =
  detail :: "string option"
  message :: "string option"

text \<open>
  A provider as the registry returns it; of its fields (\<^verbatim>\<open>id\<close>, \<^verbatim>\<open>name\<close>,
  \<^verbatim>\<open>specialty\<close>, \<^verbatim>\<open>rating\<close>, \<^verbatim>\<open>email\<close>, \<^verbatim>\<open>phone\<close>, \<^verbatim>\<open>availability\<close>) the
  handlers use the id and the name, the others are only shown.
\<close>

record Provider =
  provider_id :: nat
  name :: string
  specialty :: string
  availability :: string

type_synonym CallResult = string

text \<open>What a handler of the MaintenanceProviders component does besides updating its state.\<close>

datatype ProviderEffect =
    GetProviders "string option"
  | CallMaintenance nat nat
  | OnProviderCalled CallResult

text \<open>
  \<^verbatim>\<open>providersAPI.getProviders(specialty = null)\<close> of the API module: the query carries a
  \<^verbatim>\<open>specialty\<close> parameter only when the argument is truthy.
\<close>

definition getProviders ::
  "(string option \<Rightarrow> ApiError + Provider list) \<Rightarrow> string option
     \<Rightarrow> (ApiError + Provider list) \<times> ProviderEffect" where
  "getProviders registry sp =
     (let params = (if truthy sp then sp else None) in (registry params, GetProviders params))"

text \<open>The state hooks of the MaintenanceProviders component (both variants).\<close>

record MPState =
  providers :: "Provider list"
  selectedProvider :: "Provider option"
  isDialogOpen :: bool
  isLoading :: bool
  mp_error :: string
  mp_success :: string

definition openProviderDialog :: "Provider \<Rightarrow> MPState \<Rightarrow> MPState" where
  "openProviderDialog provider st = st\<lparr>selectedProvider := Some provider, isDialogOpen := True\<rparr>"

section \<open>MaintenanceProviders with the specialty matcher (\<^verbatim>\<open>unnamed/part_003\<close>)\<close>

text \<open>
  Lines 39 to 61 of \<^verbatim>\<open>loadProviders\<close>: the specialty that is asked of the provider
  registry. The argument is the component's \<^verbatim>\<open>repairPlan\<close> property, \<open>None\<close> when it is
  \<^verbatim>\<open>undefined\<close> or \<^verbatim>\<open>null\<close>. \<open>specialtyFromHint\<close> is the branch taken for a truthy
  \<^verbatim>\<open>recommended_provider\<close> (lines 41 to 48), \<open>specialtyFromDiagnosis\<close> the other branch
  (lines 51 to 60).
\<close>

definition specialtyFromHint :: "string \<Rightarrow> string" where
  "specialtyFromHint hint =
     (let provider = toLowerCase hint in
      if includes_str provider ''plumb'' then ''plumbing''
      else if includes_str provider ''electric'' then ''electrical''
      else if includes_str provider ''appliance'' then ''appliances''
      else if provider = ''general'' \<or> includes_str provider ''general'' then ''general''
      else ''general'')"

definition specialtyFromDiagnosis :: "RepairPlan option \<Rightarrow> string" where
  "specialtyFromDiagnosis repairPlan =
     (let description =
            (case repairPlan of None \<Rightarrow> []
             | Some p \<Rightarrow> (case diagnosis p of None \<Rightarrow> [] | Some d \<Rightarrow> toLowerCase d)) in
      if includes_str description ''plumb'' \<or> includes_str description ''water''
         \<or> includes_str description ''pipe'' \<or> includes_str description ''leak''
      then ''plumbing''
      else if includes_str description ''electric'' \<or> includes_str description ''wiring''
         \<or> includes_str description ''outlet'' \<or> includes_str description ''switch''
      then ''electrical''
      else if includes_str description ''appliance'' \<or> includes_str description ''washer''
         \<or> includes_str description ''dryer'' \<or> includes_str description ''refrigerator''
      then ''appliances''
      else ''general'')"

definition inferSpecialty :: "RepairPlan option \<Rightarrow> string" where
  "inferSpecialty repairPlan =
     (case (case repairPlan of None \<Rightarrow> None | Some p \<Rightarrow> recommended_provider p) of
        None \<Rightarrow> specialtyFromDiagnosis repairPlan
      | Some hint \<Rightarrow>
          if hint \<noteq> [] then specialtyFromHint hint else specialtyFromDiagnosis repairPlan)"

text \<open>
  \<^verbatim>\<open>loadProviders\<close>, lines 36 to 78. The result is the new component state and the
  requests sent, in order. A rejected request is caught and sets the error message.
\<close>

definition loadProviders_P3 ::
  "(string option \<Rightarrow> ApiError + Provider list) \<Rightarrow> RepairPlan option \<Rightarrow> MPState
     \<Rightarrow> MPState \<times> ProviderEffect list" where
  "loadProviders_P3 registry repairPlan st =
     (let sp = inferSpecialty repairPlan;
          (resp, req) = getProviders registry (Some sp) in
      case resp of
        Inl e \<Rightarrow> (st\<lparr>mp_error := ''Failed to load maintenance providers''\<rparr>, [req])
      | Inr providersData \<Rightarrow>
          if length providersData = 0 \<and> sp \<noteq> ''general'' then
            (let (resp2, req2) = getProviders registry (Some ''general'') in
             case resp2 of
               Inl e \<Rightarrow> (st\<lparr>mp_error := ''Failed to load maintenance providers''\<rparr>, [req, req2])
             | Inr providersData2 \<Rightarrow> (st\<lparr>providers := providersData2\<rparr>, [req, req2]))
          else (st\<lparr>providers := providersData\<rparr>, [req]))"

text \<open>
  \<^verbatim>\<open>handleCallMaintenance\<close>, lines 80 to 112. \<open>issueId\<close> is the component's property
  (falsy when missing or 0). The success text starts with U+2705, written here as its three
  UTF-8 bytes. \<^verbatim>\<open>onProviderCalled\<close> is passed by the issue page and is called back (after
  a delay of 1.5 seconds) with the result.
\<close>

definition handleCallMaintenance_P3 ::
  "(nat \<Rightarrow> nat \<Rightarrow> ApiError + CallResult) \<Rightarrow> nat option \<Rightarrow> MPState
     \<Rightarrow> MPState \<times> ProviderEffect list" where
  "handleCallMaintenance_P3 callMaintenance issueId st =
     (case selectedProvider st of
        None \<Rightarrow> (st, [])
      | Some sel \<Rightarrow>
          (case issueId of
             None \<Rightarrow> (st, [])
           | Some i \<Rightarrow>
               if i = 0 then (st, [])
               else
                 (case callMaintenance i (provider_id sel) of
                    Inr result \<Rightarrow>
                      (st\<lparr>isLoading := False, mp_error := [],
                          mp_success := [CHR 0xE2, CHR 0x9C, CHR 0x85]
                            @ '' Success! Maintenance request sent to '' @ name sel
                            @ ''. They will contact you soon.'',
                          isDialogOpen := False\<rparr>,
                       [CallMaintenance i (provider_id sel), OnProviderCalled result])
                  | Inl e \<Rightarrow>
                      (st\<lparr>isLoading := False, mp_success := [],
                          mp_error := ''Failed to send maintenance request: ''
                            @ orElse (detail e) (orElse (message e) ''Unknown error occurred'')\<rparr>,
                       [CallMaintenance i (provider_id sel)]))))"

text \<open>Lines 119 to 121: the component renders nothing only when there is no repair plan.\<close>

definition renders_P3 :: "RepairPlan option \<Rightarrow> bool" where
  "renders_P3 repairPlan = (repairPlan \<noteq> None)"

text \<open>
  The way a provider is contacted through the component: a provider card exists only when
  the component renders, one card for each element of \<open>providers\<close> (lines 166 to 178);
  clicking it runs \<^verbatim>\<open>openProviderDialog\<close>, and the dialog's Contact Provider button
  (lines 294 to 300, disabled while \<open>isLoading\<close>) runs \<^verbatim>\<open>handleCallMaintenance\<close>.
\<close>

definition contactProvider_P3 ::
  "(nat \<Rightarrow> nat \<Rightarrow> ApiError + CallResult) \<Rightarrow> nat option \<Rightarrow> RepairPlan option \<Rightarrow> Provider
     \<Rightarrow> MPState \<Rightarrow> MPState \<times> ProviderEffect list" where
  "contactProvider_P3 callMaintenance issueId repairPlan provider st =
     (if renders_P3 repairPlan \<and> provider \<in> set (providers st) \<and> \<not> isLoading st
      then handleCallMaintenance_P3 callMaintenance issueId (openProviderDialog provider st)
      else (st, []))"

section \<open>MaintenanceProviders without the matcher (frontend/src/components/MaintenanceProviders.js)\<close>

text \<open>
  \<^verbatim>\<open>loadProviders\<close>, lines 36 to 50: the hint is passed to the registry as it is, and
  there is one request.
\<close>

definition loadProviders_MP ::
  "(string option \<Rightarrow> ApiError + Provider list) \<Rightarrow> RepairPlan option \<Rightarrow> MPState
     \<Rightarrow> MPState \<times> ProviderEffect list" where
  "loadProviders_MP registry repairPlan st =
     (let hint = (case repairPlan of None \<Rightarrow> None | Some p \<Rightarrow> recommended_provider p);
          sp = (if truthy hint then hint else None);
          (resp, req) = getProviders registry sp in
      case resp of
        Inl e \<Rightarrow> (st\<lparr>mp_error := ''Failed to load maintenance providers''\<rparr>, [req])
      | Inr providersData \<Rightarrow> (st\<lparr>providers := providersData\<rparr>, [req]))"

text \<open>\<^verbatim>\<open>handleCallMaintenance\<close>, lines 52 to 73.\<close>

definition handleCallMaintenance_MP ::
  "(nat \<Rightarrow> nat \<Rightarrow> ApiError + CallResult) \<Rightarrow> nat option \<Rightarrow> MPState
     \<Rightarrow> MPState \<times> ProviderEffect list" where
  "handleCallMaintenance_MP callMaintenance issueId st =
     (case selectedProvider st of
        None \<Rightarrow> (st, [])
      | Some sel \<Rightarrow>
          (case issueId of
             None \<Rightarrow> (st, [])
           | Some i \<Rightarrow>
               if i = 0 then (st, [])
               else
                 (case callMaintenance i (provider_id sel) of
                    Inr result \<Rightarrow>
                      (st\<lparr>isLoading := False, mp_error := [],
                          mp_success := ''Maintenance request sent to '' @ name sel,
                          isDialogOpen := False\<rparr>,
                       [CallMaintenance i (provider_id sel), OnProviderCalled result])
                  | Inl e \<Rightarrow>
                      (st\<lparr>isLoading := False, mp_success := [],
                          mp_error := ''Failed to send maintenance request''\<rparr>,
                       [CallMaintenance i (provider_id sel)]))))"

text \<open>Lines 80 to 82: nothing is rendered without a repair plan or for a DIY plan.\<close>

definition renders_MP :: "RepairPlan option \<Rightarrow> bool" where
  "renders_MP repairPlan = (case repairPlan of None \<Rightarrow> False | Some p \<Rightarrow> \<not> is_diy p)"

text \<open>
  Contacting a provider through this component, wired as in the other variant: the cards
  of lines 109 to 121 run \<^verbatim>\<open>openProviderDialog\<close>, the dialog's Contact Provider button
  (lines 237 to 243, disabled while \<open>isLoading\<close>) runs \<^verbatim>\<open>handleCallMaintenance\<close>, and
  neither exists when the component renders nothing.
\<close>

definition contactProvider_MP ::
  "(nat \<Rightarrow> nat \<Rightarrow> ApiError + CallResult) \<Rightarrow> nat option \<Rightarrow> RepairPlan option \<Rightarrow> Provider
     \<Rightarrow> MPState \<Rightarrow> MPState \<times> ProviderEffect list" where
  "contactProvider_MP callMaintenance issueId repairPlan provider st =
     (if renders_MP repairPlan \<and> provider \<in> set (providers st) \<and> \<not> isLoading st
      then handleCallMaintenance_MP callMaintenance issueId (openProviderDialog provider st)
      else (st, []))"

section \<open>The issue page (frontend/src/pages/IssueDetails.js)\<close>

text \<open>
  An issue as the store returns it, and the result of an analysis request. The status is
  a string; the page knows \<^verbatim>\<open>new\<close>, \<^verbatim>\<open>analyzed\<close>, \<^verbatim>\<open>in-progress\<close>,
  \<^verbatim>\<open>maintenance_called\<close> and \<^verbatim>\<open>completed\<close>. \<open>repair_plan_json\<close> is the issue's
  \<^verbatim>\<open>repair_plan\<close> field, the stored plan as JSON text.
\<close>

record Issue =
  issue_id :: nat
  issue_description :: string
  status :: string
  issue_diagnosis :: "string option"
  repair_plan_json :: "string option"

record AnalysisResult =
  repair_plan :: "RepairPlan option"
  mermaid_flowchart :: "string option"
  text_flowchart :: "string option"

text \<open>
  The state hooks of the page. The handlers below are reachable only from the rendered
  page, which needs a loaded issue (lines 128 to 134), so \<open>issue\<close> is not optional here.
\<close>

record PageState =
  issue :: Issue
  analysis :: "AnalysisResult option"
  isAnalyzing :: bool
  page_error :: string
  page_isLoading :: bool

text \<open>
  \<^verbatim>\<open>analyzeIssue\<close>, lines 63 to 84. The first argument is the analysis endpoint
  (\<^verbatim>\<open>issuesAPI.analyzeIssue\<close>), the second the issue id of the route.
\<close>

definition analyzeIssue ::
  "(nat \<Rightarrow> ApiError + AnalysisResult) \<Rightarrow> nat \<Rightarrow> PageState \<Rightarrow> PageState" where
  "analyzeIssue analyzeApi i st =
     (case analyzeApi i of
        Inr result \<Rightarrow>
          st\<lparr>isAnalyzing := False, page_error := [], analysis := Some result,
             issue := (issue st)
               \<lparr>status := ''analyzed'',
                issue_diagnosis :=
                  (let d = (case repair_plan result of None \<Rightarrow> None | Some rp \<Rightarrow> diagnosis rp)
                   in if truthy d then d else issue_diagnosis (issue st))\<rparr>\<rparr>
      | Inl e \<Rightarrow>
          st\<lparr>isAnalyzing := False,
             page_error := ''Failed to analyze issue. Please try again.''\<rparr>)"

section \<open>The issue page that reloads the issue (\<^verbatim>\<open>unnamed/part_002\<close>)\<close>

text \<open>
  \<^verbatim>\<open>loadIssue\<close>, lines 45 to 62. \<open>getIssue\<close> is the issue endpoint, \<open>parse\<close> stands for
  \<^verbatim>\<open>JSON.parse\<close> on the stored plan: \<open>None\<close> when it throws, otherwise \<open>Some\<close> of the
  parsed value, which is \<open>None\<close> for the JSON text \<^verbatim>\<open>null\<close> and a plan otherwise.
\<close>

definition loadIssue_P2 ::
  "(nat \<Rightarrow> ApiError + Issue) \<Rightarrow> (string \<Rightarrow> RepairPlan option option) \<Rightarrow> nat \<Rightarrow> PageState
     \<Rightarrow> PageState" where
  "loadIssue_P2 getIssue parse i st =
     (case getIssue i of
        Inl e \<Rightarrow> st\<lparr>page_isLoading := False, page_error := ''Failed to load issue details''\<rparr>
      | Inr issueData \<Rightarrow>
          (case repair_plan_json issueData of
             None \<Rightarrow> st\<lparr>page_isLoading := False, issue := issueData\<rparr>
           | Some js \<Rightarrow>
               if js = [] then st\<lparr>page_isLoading := False, issue := issueData\<rparr>
               else
                 (case parse js of
                    Some repairPlan \<Rightarrow>
                      st\<lparr>page_isLoading := False, issue := issueData,
                         analysis := Some \<lparr>repair_plan = repairPlan,
                                            mermaid_flowchart = None, text_flowchart = None\<rparr>\<rparr>
                  | None \<Rightarrow>
                      st\<lparr>page_isLoading := False, issue := issueData,
                         page_error := ''Failed to load issue details''\<rparr>)))"

text \<open>\<^verbatim>\<open>analyzeIssue\<close>, lines 64 to 80: the issue is read again from the store.\<close>

definition analyzeIssue_P2 ::
  "(nat \<Rightarrow> ApiError + AnalysisResult) \<Rightarrow> (nat \<Rightarrow> ApiError + Issue)
     \<Rightarrow> (string \<Rightarrow> RepairPlan option option) \<Rightarrow> nat \<Rightarrow> PageState \<Rightarrow> PageState" where
  "analyzeIssue_P2 analyzeApi getIssue parse i st =
     (case analyzeApi i of
        Inr result \<Rightarrow>
          (loadIssue_P2 getIssue parse i (st\<lparr>page_error := [], analysis := Some result\<rparr>))
            \<lparr>isAnalyzing := False\<rparr>
      | Inl e \<Rightarrow>
          st\<lparr>isAnalyzing := False,
             page_error := ''Failed to analyze issue. Please try again.''\<rparr>)"

section \<open>Reporting an issue (frontend/src/components/ImageUpload.js)\<close>

text \<open>
  A selected file is known by its name. The form sent to the issue endpoint has the two
  parts \<^verbatim>\<open>image\<close> and \<^verbatim>\<open>description\<close>.
\<close>

type_synonym File = string

record FormData =
  form_image :: File
  form_description :: string

type_synonym CreatedIssue = nat

datatype UploadEffect =
    CreateIssue FormData
  | OnUploadSuccess CreatedIssue

record UploadState =
  selectedImage :: "File option"
  description :: string
  isRecording :: bool
  isUploading :: bool
  upload_error :: string
  upload_success :: string

text \<open>
  \<^verbatim>\<open>handleSubmit\<close>, lines 58 to 88. \<open>createIssue\<close> is the issue-creation endpoint; the
  result is the new state and what was sent and called back, in order.
\<close>

definition handleSubmit ::
  "(FormData \<Rightarrow> ApiError + CreatedIssue) \<Rightarrow> UploadState \<Rightarrow> UploadState \<times> UploadEffect list" where
  "handleSubmit createIssue st =
     (case selectedImage st of
        None \<Rightarrow> (st\<lparr>upload_error := ''Please provide both an image and description''\<rparr>, [])
      | Some img \<Rightarrow>
          if trim (description st) = [] then
            (st\<lparr>upload_error := ''Please provide both an image and description''\<rparr>, [])
          else
            (let formData = \<lparr>form_image = img, form_description = description st\<rparr> in
             case createIssue formData of
               Inr result \<Rightarrow>
                 (st\<lparr>isUploading := False, upload_error := [],
                     upload_success := ''Issue uploaded successfully!'',
                     selectedImage := None, description := []\<rparr>,
                  [CreateIssue formData, OnUploadSuccess result])
             | Inl e \<Rightarrow>
                 (st\<lparr>isUploading := False, upload_success := [],
                     upload_error := ''Failed to upload issue. Please try again.''\<rparr>,
                  [CreateIssue formData])))"

section \<open>The step list of FlowchartDisplay (\<^verbatim>\<open>unnamed/part_000\<close>)\<close>

text \<open>
  Line 146, \<^verbatim>\<open>Step {step.step || index + 1}\<close>: the number shown for the step at the
  0-based position \<open>index\<close>. A number is falsy exactly when it is 0.
\<close>

definition stepLabel :: "Step \<Rightarrow> nat \<Rightarrow> int" where
  "stepLabel s index =
     (case step s of
        None \<Rightarrow> int index + 1
      | Some n \<Rightarrow> if n \<noteq> 0 then n else int index + 1)"

text \<open>Lines 141 to 147: the numbers shown for the steps of a plan, in order.\<close>

definition stepLabels :: "RepairPlan \<Rightarrow> int list" where
  "stepLabels repairPlan =
     (case steps repairPlan of
        None \<Rightarrow> []
      | Some ss \<Rightarrow> map (\<lambda>(index, s). stepLabel s index) (enumerate 0 ss))"

section \<open>Dashboard statistics\<close>

text \<open>
  The statistics shown by the dashboard page come from \<^verbatim>\<open>GET /api/dashboard\<close>. The back
  end that computes them is not among the sources; the page only shows
  \<^verbatim>\<open>stats.completion_rate\<close>. The three functions below follow section 4.5 of the
  specification (the Dashboard Aggregator). The arithmetic is exact (real numbers), not
  floating point.
\<close>

text \<open>
  Modelled from the spec: \<^verbatim>\<open>totalIssues\<close> of the Dashboard Aggregator (back end, not
  among the sources), the number of issues in the collection.
\<close>

definition totalIssues :: "Issue list \<Rightarrow> nat" where
  "totalIssues issues = length issues"

text \<open>
  Modelled from the spec: \<^verbatim>\<open>completedIssues\<close> of the Dashboard Aggregator (back end, not
  among the sources), the count of issues where \<^verbatim>\<open>status == completed\<close>.
\<close>

definition completedIssues :: "Issue list \<Rightarrow> nat" where
  "completedIssues issues = length (filter (\<lambda>i. status i = ''completed'') issues)"

text \<open>
  Modelled from the spec: \<^verbatim>\<open>completionRate\<close> of the Dashboard Aggregator (back end, not
  among the sources), \<^verbatim>\<open>completedIssues / totalIssues * 100\<close>, and 0 when
  \<^verbatim>\<open>totalIssues == 0\<close>.
\<close>

definition completionRate :: "Issue list \<Rightarrow> real" where
  "completionRate issues =
     (if totalIssues issues = 0 then 0
      else real (completedIssues issues) / real (totalIssues issues) * 100)"

section \<open>Properties of the string operations\<close>

lemma startsWith_prefix: "startsWith s k \<longleftrightarrow> prefix k s"
  by (induction s k rule: startsWith.induct) auto

lemma includes_str_sublist: "includes_str s k \<longleftrightarrow> sublist k s"
  by (induction s) (auto simp: startsWith_prefix sublist_Cons_right)

section \<open>The specialty matcher\<close>

lemma specialtyFromHint_range:
  "specialtyFromHint h \<in> {''plumbing'', ''electrical'', ''appliances'', ''general''}"
  by (simp add: specialtyFromHint_def Let_def)

lemma specialtyFromDiagnosis_range:
  "specialtyFromDiagnosis p \<in> {''plumbing'', ''electrical'', ''appliances'', ''general''}"
  by (simp add: specialtyFromDiagnosis_def Let_def)

lemma inferSpecialty_range:
  "inferSpecialty plan \<in> {''plumbing'', ''electrical'', ''appliances'', ''general''}"
  unfolding inferSpecialty_def
  using specialtyFromHint_range specialtyFromDiagnosis_range
  by (auto split: option.splits simp del: insert_iff)

lemma inferSpecialty_truthy: "truthy (Some (inferSpecialty plan))"
  using inferSpecialty_range [of plan] by auto

lemma lower_leaking_pipe:
  "toLowerCase ''leaking pipe and electrical outlet'' = ''leaking pipe and electrical outlet''"
  by code_simp

lemma lower_water_leaking:
  "toLowerCase ''water leaking under sink'' = ''water leaking under sink''"
  by code_simp

lemma pipe_in_leaking_pipe: "includes_str ''leaking pipe and electrical outlet'' ''pipe''"
  by code_simp

lemma water_in_water_leaking: "includes_str ''water leaking under sink'' ''water''"
  by code_simp

text \<open>
  Claim C2. Without a usable \<^verbatim>\<open>recommended_provider\<close> (none, or the empty string) the
  matcher of \<^verbatim>\<open>part_003\<close> always returns one of plumbing, electrical, appliances and general,
  and which one is decided by the lower-cased diagnosis alone: plumbing when one of plumb,
  water, pipe, leak occurs in it; otherwise electrical when one of electric, wiring,
  outlet, switch occurs; otherwise appliances when one of appliance, washer, dryer,
  refrigerator occurs; otherwise general. The diagnoses "leaking pipe and electrical
  outlet" and "water leaking under sink" both give plumbing.
\<close>

theorem specialty_from_diagnosis:
  assumes "\<not> truthy (recommended_provider p)"
  shows "inferSpecialty (Some p) \<in> {''plumbing'', ''electrical'', ''appliances'', ''general''}
    \<and> inferSpecialty (Some p) =
        (let d = (case diagnosis p of None \<Rightarrow> [] | Some t \<Rightarrow> toLowerCase t) in
         if \<exists>k \<in> {''plumb'', ''water'', ''pipe'', ''leak''}. sublist k d then ''plumbing''
         else if \<exists>k \<in> {''electric'', ''wiring'', ''outlet'', ''switch''}. sublist k d
           then ''electrical''
         else if \<exists>k \<in> {''appliance'', ''washer'', ''dryer'', ''refrigerator''}. sublist k d
           then ''appliances''
         else ''general'')
    \<and> (diagnosis p = Some ''leaking pipe and electrical outlet''
          \<longrightarrow> inferSpecialty (Some p) = ''plumbing'')
    \<and> (diagnosis p = Some ''water leaking under sink''
          \<longrightarrow> inferSpecialty (Some p) = ''plumbing'')"
proof -
  have branch: "inferSpecialty (Some p) = specialtyFromDiagnosis (Some p)"
    using assms by (cases "recommended_provider p") (simp_all add: inferSpecialty_def)
  have range: "inferSpecialty (Some p) \<in> {''plumbing'', ''electrical'', ''appliances'', ''general''}"
    unfolding branch by (rule specialtyFromDiagnosis_range)
  have order: "inferSpecialty (Some p) =
        (let d = (case diagnosis p of None \<Rightarrow> [] | Some t \<Rightarrow> toLowerCase t) in
         if \<exists>k \<in> {''plumb'', ''water'', ''pipe'', ''leak''}. sublist k d then ''plumbing''
         else if \<exists>k \<in> {''electric'', ''wiring'', ''outlet'', ''switch''}. sublist k d
           then ''electrical''
         else if \<exists>k \<in> {''appliance'', ''washer'', ''dryer'', ''refrigerator''}. sublist k d
           then ''appliances''
         else ''general'')"
    unfolding branch by (simp add: specialtyFromDiagnosis_def Let_def includes_str_sublist)
  have ex1: "diagnosis p = Some ''leaking pipe and electrical outlet''
          \<longrightarrow> inferSpecialty (Some p) = ''plumbing''"
    unfolding branch
    by (simp add: specialtyFromDiagnosis_def Let_def lower_leaking_pipe pipe_in_leaking_pipe)
  have ex2: "diagnosis p = Some ''water leaking under sink''
          \<longrightarrow> inferSpecialty (Some p) = ''plumbing''"
    unfolding branch
    by (simp add: specialtyFromDiagnosis_def Let_def lower_water_leaking water_in_water_leaking)
  from range order ex1 ex2 show ?thesis by blast
qed

theorem specialty_from_diagnosis_witness:
  "\<not> truthy (recommended_provider
        \<lparr>diagnosis = Some ''leaking pipe and electrical outlet'', is_diy = False,
         recommended_provider = None, steps = None\<rparr>)
   \<and> inferSpecialty
        (Some \<lparr>diagnosis = Some ''leaking pipe and electrical outlet'', is_diy = False,
               recommended_provider = None, steps = None\<rparr>) = ''plumbing''"
proof -
  have hint: "\<not> truthy (recommended_provider
        \<lparr>diagnosis = Some ''leaking pipe and electrical outlet'', is_diy = False,
         recommended_provider = None, steps = None\<rparr>)"
    by simp
  have "diagnosis \<lparr>diagnosis = Some ''leaking pipe and electrical outlet'', is_diy = False,
         recommended_provider = None, steps = None\<rparr> = Some ''leaking pipe and electrical outlet''
      \<longrightarrow> inferSpecialty
        (Some \<lparr>diagnosis = Some ''leaking pipe and electrical outlet'', is_diy = False,
               recommended_provider = None, steps = None\<rparr>) = ''plumbing''"
    by (rule specialty_from_diagnosis [OF hint, THEN conjunct2, THEN conjunct2, THEN conjunct1])
  with hint show ?thesis by simp
qed

text \<open>
  Claim C3, as amended. For a repair plan whose \<^verbatim>\<open>recommended_provider\<close> is a non-empty
  string, the matcher of \<^verbatim>\<open>part_003\<close> lower-cases the hint and returns plumbing when plumb
  occurs in it, otherwise electrical when electric occurs, otherwise appliances when
  appliance occurs, and general in every other case; the diagnosis plays no part and one
  of the four categories is always returned.
\<close>

theorem specialty_from_hint:
  assumes "recommended_provider p = Some h" and "h \<noteq> []"
  shows "inferSpecialty (Some p) \<in> {''plumbing'', ''electrical'', ''appliances'', ''general''}
    \<and> inferSpecialty (Some p) =
        (let t = toLowerCase h in
         if sublist ''plumb'' t then ''plumbing''
         else if sublist ''electric'' t then ''electrical''
         else if sublist ''appliance'' t then ''appliances''
         else ''general'')"
proof -
  have branch: "inferSpecialty (Some p) = specialtyFromHint h"
    using assms by (simp add: inferSpecialty_def)
  show ?thesis
    unfolding branch using specialtyFromHint_range [of h]
    by (simp add: specialtyFromHint_def Let_def includes_str_sublist)
qed

theorem specialty_from_hint_witness:
  "recommended_provider
       \<lparr>diagnosis = Some ''Water on the floor'', is_diy = False,
        recommended_provider = Some ''Electrician'', steps = None\<rparr> = Some ''Electrician''
   \<and> ''Electrician'' \<noteq> []
   \<and> inferSpecialty (Some \<lparr>diagnosis = Some ''Water on the floor'', is_diy = False,
       recommended_provider = Some ''Electrician'', steps = None\<rparr>) = ''electrical''"
proof -
  have low: "toLowerCase ''Electrician'' = ''electrician''" by code_simp
  have no: "\<not> sublist ''plumb'' ''electrician''"
    unfolding includes_str_sublist [symmetric] by code_simp
  have yes: "sublist ''electric'' ''electrician''"
    unfolding includes_str_sublist [symmetric] by code_simp
  show ?thesis
    using specialty_from_hint [of "\<lparr>diagnosis = Some ''Water on the floor'', is_diy = False,
       recommended_provider = Some ''Electrician'', steps = None\<rparr>" "''Electrician''"]
    by (simp add: low no yes)
qed

text \<open>
  Claim C3 as stated fails for a hint that is present and empty: the plan below has the
  hint \<^verbatim>\<open>""\<close>, for which the hint rule gives general, yet the matcher takes the
  diagnosis branch and returns plumbing.
\<close>

theorem empty_hint_counterexample:
  "inferSpecialty (Some \<lparr>diagnosis = Some ''water leak'', is_diy = False,
       recommended_provider = Some [], steps = None\<rparr>) = ''plumbing''
   \<and> specialtyFromHint [] = ''general''"
  by code_simp

section \<open>The provider lookup\<close>

text \<open>
  Claim C4, as amended. In the component of \<^verbatim>\<open>part_003\<close>, when the registry answers the
  lookup for the matched specialty with the list \<open>found\<close>: if \<open>found\<close> is not empty or the specialty is general, that lookup is the only
  request and \<open>found\<close> becomes the provider list; if \<open>found\<close> is empty and the specialty is
  not general, exactly one more lookup follows, for general, and its answer becomes the
  provider list; and when that answer is empty too, the provider list is empty and no
  error message is set.
\<close>

theorem provider_lookup_fallback:
  assumes "registry (Some (inferSpecialty plan)) = Inr found"
  shows "(found \<noteq> [] \<or> inferSpecialty plan = ''general'' \<longrightarrow>
            loadProviders_P3 registry plan st =
              (st\<lparr>providers := found\<rparr>, [GetProviders (Some (inferSpecialty plan))]))
    \<and> (found = [] \<and> inferSpecialty plan \<noteq> ''general'' \<longrightarrow>
          (\<forall>fallback. registry (Some ''general'') = Inr fallback \<longrightarrow>
             loadProviders_P3 registry plan st =
               (st\<lparr>providers := fallback\<rparr>,
                [GetProviders (Some (inferSpecialty plan)), GetProviders (Some ''general'')])))
    \<and> (found = [] \<and> registry (Some ''general'') = Inr [] \<longrightarrow>
          providers (fst (loadProviders_P3 registry plan st)) = []
          \<and> mp_error (fst (loadProviders_P3 registry plan st)) = mp_error st)"
  using assms inferSpecialty_truthy [of plan]
  by (auto simp: loadProviders_P3_def getProviders_def Let_def)

theorem provider_lookup_fallback_witness:
  "loadProviders_P3
       (\<lambda>q. if q = Some ''general''
            then Inr [\<lparr>provider_id = 7, name = ''Handy Co'', specialty = ''general'',
                       availability = ''available''\<rparr>]
            else Inr [])
       (Some \<lparr>diagnosis = Some ''Burst pipe'', is_diy = False,
              recommended_provider = None, steps = None\<rparr>)
       \<lparr>providers = [], selectedProvider = None, isDialogOpen = False, isLoading = False,
        mp_error = [], mp_success = []\<rparr>
     = (\<lparr>providers = [\<lparr>provider_id = 7, name = ''Handy Co'', specialty = ''general'',
                        availability = ''available''\<rparr>],
         selectedProvider = None, isDialogOpen = False, isLoading = False,
         mp_error = [], mp_success = []\<rparr>,
        [GetProviders (Some ''plumbing''), GetProviders (Some ''general'')])"
proof -
  have sp: "inferSpecialty (Some \<lparr>diagnosis = Some ''Burst pipe'', is_diy = False,
              recommended_provider = None, steps = None\<rparr>) = ''plumbing''"
    by code_simp
  show ?thesis
    using provider_lookup_fallback
      [of "\<lambda>q. if q = Some ''general''
            then Inr [\<lparr>provider_id = 7, name = ''Handy Co'', specialty = ''general'',
                       availability = ''available''\<rparr>]
            else Inr []"
          "Some \<lparr>diagnosis = Some ''Burst pipe'', is_diy = False,
              recommended_provider = None, steps = None\<rparr>" "[]"
          "\<lparr>providers = [], selectedProvider = None, isDialogOpen = False, isLoading = False,
        mp_error = [], mp_success = []\<rparr>"]
    by (simp add: sp)
qed

text \<open>
  Claim C4 as stated fails on the component of MaintenanceProviders.js: for the hint
  plumbing and a registry that has no plumbing provider but a general one, its
  \<^verbatim>\<open>loadProviders\<close> sends the one lookup for plumbing, does not ask again for general, and
  leaves the provider list empty.
\<close>

theorem no_retry_counterexample:
  "loadProviders_MP
       (\<lambda>q. if q = Some ''general''
            then Inr [\<lparr>provider_id = 7, name = ''Handy Co'', specialty = ''general'',
                       availability = ''available''\<rparr>]
            else Inr [])
       (Some \<lparr>diagnosis = Some ''Burst pipe'', is_diy = False,
              recommended_provider = Some ''plumbing'', steps = None\<rparr>)
       \<lparr>providers = [], selectedProvider = None, isDialogOpen = False, isLoading = False,
        mp_error = [], mp_success = []\<rparr>
     = (\<lparr>providers = [], selectedProvider = None, isDialogOpen = False, isLoading = False,
         mp_error = [], mp_success = []\<rparr>,
        [GetProviders (Some ''plumbing'')])"
  by code_simp

section \<open>The two variants of the provider component compared\<close>

lemma specialtyFromHint_names:
  "specialtyFromHint ''plumbing'' = ''plumbing''"
  "specialtyFromHint ''electrical'' = ''electrical''"
  "specialtyFromHint ''appliances'' = ''appliances''"
  "specialtyFromHint ''general'' = ''general''"
  by code_simp+

lemma specialtyFromHint_fixed:
  "specialtyFromHint h = h \<longleftrightarrow> h \<in> {''plumbing'', ''electrical'', ''appliances'', ''general''}"
proof
  assume "specialtyFromHint h = h"
  then show "h \<in> {''plumbing'', ''electrical'', ''appliances'', ''general''}"
    using specialtyFromHint_range [of h] by simp
next
  assume "h \<in> {''plumbing'', ''electrical'', ''appliances'', ''general''}"
  then show "specialtyFromHint h = h"
    using specialtyFromHint_names by auto
qed

lemma requests_MP:
  "snd (loadProviders_MP registry plan st) =
     [GetProviders (case plan of None \<Rightarrow> None
        | Some p \<Rightarrow> if truthy (recommended_provider p) then recommended_provider p else None)]"
  by (auto simp: loadProviders_MP_def getProviders_def Let_def split: sum.splits option.splits)

lemma requests_P3:
  "snd (loadProviders_P3 registry plan st) =
     (if registry (Some (inferSpecialty plan)) = Inr [] \<and> inferSpecialty plan \<noteq> ''general''
      then [GetProviders (Some (inferSpecialty plan)), GetProviders (Some ''general'')]
      else [GetProviders (Some (inferSpecialty plan))])"
  using inferSpecialty_truthy [of plan]
  by (auto simp: loadProviders_P3_def getProviders_def Let_def split: sum.splits)

text \<open>
  Claim C9, as amended. The two \<^verbatim>\<open>loadProviders\<close> functions send the same requests to the
  provider registry exactly when the plan's \<^verbatim>\<open>recommended_provider\<close> is literally one of
  plumbing, electrical, appliances, general, and the registry's answer for it is not an
  empty list unless the hint is general. In every other case they differ: the component
  of MaintenanceProviders.js passes the hint on unchanged (or asks without a filter when
  there is no hint) and never asks a second time.
\<close>

theorem variants_same_requests_iff:
  "snd (loadProviders_MP registry plan st) = snd (loadProviders_P3 registry plan st')
   \<longleftrightarrow> (\<exists>p h. plan = Some p \<and> recommended_provider p = Some h
          \<and> h \<in> {''plumbing'', ''electrical'', ''appliances'', ''general''}
          \<and> (h = ''general'' \<or> registry (Some h) \<noteq> Inr []))"
proof (cases plan)
  case None
  then show ?thesis by (simp add: requests_MP requests_P3)
next
  case (Some p)
  show ?thesis
  proof (cases "recommended_provider p")
    case None
    with Some show ?thesis by (simp add: requests_MP requests_P3)
  next
    case hint: (Some h)
    show ?thesis
    proof (cases "h = []")
      case True
      with Some hint show ?thesis by (auto simp add: requests_MP requests_P3)
    next
      case False
      with Some hint have inf: "inferSpecialty plan = specialtyFromHint h"
        by (simp add: inferSpecialty_def)
      show ?thesis
      proof (cases "h \<in> {''plumbing'', ''electrical'', ''appliances'', ''general''}")
        case True
        then have "specialtyFromHint h = h" by (simp only: specialtyFromHint_fixed)
        with Some hint False True inf show ?thesis
          by (auto simp add: requests_MP requests_P3 simp del: insert_iff)
      next
        case notin: False
        then have "specialtyFromHint h \<noteq> h"
          by (simp only: specialtyFromHint_fixed not_False_eq_True)
        with Some hint False notin inf show ?thesis
          by (auto simp add: requests_MP requests_P3 simp del: insert_iff)
      qed
    qed
  qed
qed

theorem variants_same_requests_witness:
  "snd (loadProviders_MP
          (\<lambda>q. Inr [\<lparr>provider_id = 3, name = ''Pipe Pros'', specialty = ''plumbing'',
                     availability = ''available''\<rparr>])
          (Some \<lparr>diagnosis = Some ''Burst pipe'', is_diy = False,
                 recommended_provider = Some ''plumbing'', steps = None\<rparr>)
          \<lparr>providers = [], selectedProvider = None, isDialogOpen = False, isLoading = False,
           mp_error = [], mp_success = []\<rparr>)
   = snd (loadProviders_P3
          (\<lambda>q. Inr [\<lparr>provider_id = 3, name = ''Pipe Pros'', specialty = ''plumbing'',
                     availability = ''available''\<rparr>])
          (Some \<lparr>diagnosis = Some ''Burst pipe'', is_diy = False,
                 recommended_provider = Some ''plumbing'', steps = None\<rparr>)
          \<lparr>providers = [], selectedProvider = None, isDialogOpen = False, isLoading = False,
           mp_error = [], mp_success = []\<rparr>)"
  unfolding variants_same_requests_iff by simp

text \<open>
  Claim C9 as stated fails for the hint "Plumber": MaintenanceProviders.js asks the
  registry for the specialty Plumber, once; \<^verbatim>\<open>part_003\<close> asks for plumbing and, the answer
  being empty, for general.
\<close>

theorem variants_differ_counterexample:
  "snd (loadProviders_MP (\<lambda>q. Inr [])
         (Some \<lparr>diagnosis = Some ''Burst pipe'', is_diy = False,
                recommended_provider = Some ''Plumber'', steps = None\<rparr>)
         \<lparr>providers = [], selectedProvider = None, isDialogOpen = False, isLoading = False,
          mp_error = [], mp_success = []\<rparr>)
     = [GetProviders (Some ''Plumber'')]
   \<and> snd (loadProviders_P3 (\<lambda>q. Inr [])
         (Some \<lparr>diagnosis = Some ''Burst pipe'', is_diy = False,
                recommended_provider = Some ''Plumber'', steps = None\<rparr>)
         \<lparr>providers = [], selectedProvider = None, isDialogOpen = False, isLoading = False,
          mp_error = [], mp_success = []\<rparr>)
     = [GetProviders (Some ''plumbing''), GetProviders (Some ''general'')]"
  by code_simp

section \<open>Contacting a provider for a DIY plan\<close>

text \<open>
  Claim C1, as amended. For every repair plan whose \<^verbatim>\<open>is_diy\<close> is true, the component
  of MaintenanceProviders.js renders nothing, so whatever provider, issue and back end
  there are, contacting a provider through it sends no request and leaves the component
  state as it was (no error message is set either).
\<close>

theorem diy_plan_offers_no_provider:
  assumes "is_diy p"
  shows "\<not> renders_MP (Some p)
    \<and> contactProvider_MP callMaintenance issueId (Some p) provider st = (st, [])"
  using assms by (simp add: renders_MP_def contactProvider_MP_def)

theorem diy_plan_offers_no_provider_witness:
  "is_diy \<lparr>diagnosis = Some ''Loose cabinet hinge'', is_diy = True,
           recommended_provider = None, steps = None\<rparr>
   \<and> contactProvider_MP (\<lambda>i p. Inr ''sent'') (Some 1)
         (Some \<lparr>diagnosis = Some ''Loose cabinet hinge'', is_diy = True,
                recommended_provider = None, steps = None\<rparr>)
         \<lparr>provider_id = 7, name = ''Handy Co'', specialty = ''general'',
          availability = ''available''\<rparr>
         \<lparr>providers = [\<lparr>provider_id = 7, name = ''Handy Co'', specialty = ''general'',
                         availability = ''available''\<rparr>],
          selectedProvider = None, isDialogOpen = False, isLoading = False,
          mp_error = [], mp_success = []\<rparr>
     = (\<lparr>providers = [\<lparr>provider_id = 7, name = ''Handy Co'', specialty = ''general'',
                         availability = ''available''\<rparr>],
          selectedProvider = None, isDialogOpen = False, isLoading = False,
          mp_error = [], mp_success = []\<rparr>, [])"
  using diy_plan_offers_no_provider
    [of "\<lparr>diagnosis = Some ''Loose cabinet hinge'', is_diy = True,
           recommended_provider = None, steps = None\<rparr>" "\<lambda>i p. Inr ''sent''" "Some 1"
        "\<lparr>provider_id = 7, name = ''Handy Co'', specialty = ''general'',
          availability = ''available''\<rparr>"
        "\<lparr>providers = [\<lparr>provider_id = 7, name = ''Handy Co'', specialty = ''general'',
                         availability = ''available''\<rparr>],
          selectedProvider = None, isDialogOpen = False, isLoading = False,
          mp_error = [], mp_success = []\<rparr>"]
  by simp

text \<open>
  Claim C1 as stated fails in both variants for the DIY plan below. Through the component
  of MaintenanceProviders.js the attempt to contact provider 7 does nothing and reports
  no error. The component of \<^verbatim>\<open>part_003\<close> has no DIY guard: it shows the provider, and
  contacting that provider sends the call-maintenance request for issue 1 and provider 7,
  both when the back end accepts it (success is then reported to the page) and when the
  back end rejects it.
\<close>

theorem diy_contact_counterexample:
  "mp_error (fst (contactProvider_MP (\<lambda>i p. Inr ''sent'') (Some 1)
         (Some \<lparr>diagnosis = Some ''Loose cabinet hinge'', is_diy = True,
                recommended_provider = None, steps = None\<rparr>)
         \<lparr>provider_id = 7, name = ''Handy Co'', specialty = ''general'',
          availability = ''available''\<rparr>
         \<lparr>providers = [\<lparr>provider_id = 7, name = ''Handy Co'', specialty = ''general'',
                         availability = ''available''\<rparr>],
          selectedProvider = None, isDialogOpen = False, isLoading = False,
          mp_error = [], mp_success = []\<rparr>)) = []
   \<and> renders_P3 (Some \<lparr>diagnosis = Some ''Loose cabinet hinge'', is_diy = True,
                     recommended_provider = None, steps = None\<rparr>)
   \<and> snd (contactProvider_P3 (\<lambda>i p. Inr ''sent'') (Some 1)
         (Some \<lparr>diagnosis = Some ''Loose cabinet hinge'', is_diy = True,
                recommended_provider = None, steps = None\<rparr>)
         \<lparr>provider_id = 7, name = ''Handy Co'', specialty = ''general'',
          availability = ''available''\<rparr>
         \<lparr>providers = [\<lparr>provider_id = 7, name = ''Handy Co'', specialty = ''general'',
                         availability = ''available''\<rparr>],
          selectedProvider = None, isDialogOpen = False, isLoading = False,
          mp_error = [], mp_success = []\<rparr>)
     = [CallMaintenance 1 7, OnProviderCalled ''sent'']
   \<and> snd (contactProvider_P3
         (\<lambda>i p. Inl \<lparr>detail = Some ''Provider not available'', message = None\<rparr>) (Some 1)
         (Some \<lparr>diagnosis = Some ''Loose cabinet hinge'', is_diy = True,
                recommended_provider = None, steps = None\<rparr>)
         \<lparr>provider_id = 7, name = ''Handy Co'', specialty = ''general'',
          availability = ''available''\<rparr>
         \<lparr>providers = [\<lparr>provider_id = 7, name = ''Handy Co'', specialty = ''general'',
                         availability = ''available''\<rparr>],
          selectedProvider = None, isDialogOpen = False, isLoading = False,
          mp_error = [], mp_success = []\<rparr>)
     = [CallMaintenance 1 7]"
  by code_simp

section \<open>Analysis on the issue page\<close>

text \<open>
  Claim C5, as amended. On the issue page of IssueDetails.js a successful analysis or
  re-analysis sets the shown status to analyzed whatever it was before (also from
  completed), keeps the result as the page's analysis, and replaces the shown diagnosis
  by the new plan's diagnosis when that is a non-empty string (the old one stays
  otherwise). The page of \<^verbatim>\<open>part_002\<close> instead reads the issue again from the store after a
  successful analysis, so there the status is the one the store returns.
\<close>

theorem analysis_success_sets_analyzed:
  assumes "analyzeApi i = Inr result"
  shows "status (issue (analyzeIssue analyzeApi i st)) = ''analyzed''
    \<and> analysis (analyzeIssue analyzeApi i st) = Some result
    \<and> issue_diagnosis (issue (analyzeIssue analyzeApi i st)) =
        (case repair_plan result of
           None \<Rightarrow> issue_diagnosis (issue st)
         | Some rp \<Rightarrow> if truthy (diagnosis rp) then diagnosis rp else issue_diagnosis (issue st))
    \<and> (\<forall>issueData. getIssue i = Inr issueData \<longrightarrow>
          issue (analyzeIssue_P2 analyzeApi getIssue parse i st) = issueData)"
  using assms
  by (auto simp: analyzeIssue_def analyzeIssue_P2_def loadIssue_P2_def Let_def
           split: option.splits)

theorem analysis_success_sets_analyzed_witness:
  "status (issue (analyzeIssue
      (\<lambda>i. Inr \<lparr>repair_plan = Some \<lparr>diagnosis = Some ''Worn washer'', is_diy = True,
                                    recommended_provider = None, steps = None\<rparr>,
                 mermaid_flowchart = None, text_flowchart = None\<rparr>)
      1
      \<lparr>issue = \<lparr>issue_id = 1, issue_description = ''Dripping tap'', status = ''new'',
                 issue_diagnosis = None, repair_plan_json = None\<rparr>,
       analysis = None, isAnalyzing = False, page_error = [], page_isLoading = False\<rparr>))
   = ''analyzed''"
  using analysis_success_sets_analyzed
    [of "\<lambda>i. Inr \<lparr>repair_plan = Some \<lparr>diagnosis = Some ''Worn washer'', is_diy = True,
                                    recommended_provider = None, steps = None\<rparr>,
                 mermaid_flowchart = None, text_flowchart = None\<rparr>" 1
        "\<lparr>repair_plan = Some \<lparr>diagnosis = Some ''Worn washer'', is_diy = True,
                                    recommended_provider = None, steps = None\<rparr>,
                 mermaid_flowchart = None, text_flowchart = None\<rparr>"
        "\<lparr>issue = \<lparr>issue_id = 1, issue_description = ''Dripping tap'', status = ''new'',
                 issue_diagnosis = None, repair_plan_json = None\<rparr>,
       analysis = None, isAnalyzing = False, page_error = [], page_isLoading = False\<rparr>"]
  by simp

text \<open>
  Claim C5 as stated fails on IssueDetails.js: re-analysing the completed issue below
  with success leaves it with the status analyzed, not completed.
\<close>

theorem reanalysis_of_completed_counterexample:
  "status (issue (analyzeIssue
      (\<lambda>i. Inr \<lparr>repair_plan = Some \<lparr>diagnosis = Some ''Worn washer'', is_diy = True,
                                    recommended_provider = None, steps = None\<rparr>,
                 mermaid_flowchart = None, text_flowchart = None\<rparr>)
      1
      \<lparr>issue = \<lparr>issue_id = 1, issue_description = ''Dripping tap'', status = ''completed'',
                 issue_diagnosis = Some ''Loose handle'', repair_plan_json = None\<rparr>,
       analysis = None, isAnalyzing = False, page_error = [], page_isLoading = False\<rparr>))
   = ''analyzed''"
  by code_simp

text \<open>
  Claim C6. When the analysis request fails, the page keeps its issue exactly as it was
  (status and stored repair plan included) and keeps its previous analysis; the only
  changes are the error message "Failed to analyze issue. Please try again." and the end
  of the busy state. The page of \<^verbatim>\<open>part_002\<close> does the same.
\<close>

theorem analysis_failure_leaves_issue:
  assumes "analyzeApi i = Inl e"
  shows "analyzeIssue analyzeApi i st =
           st\<lparr>isAnalyzing := False, page_error := ''Failed to analyze issue. Please try again.''\<rparr>
    \<and> issue (analyzeIssue analyzeApi i st) = issue st
    \<and> status (issue (analyzeIssue analyzeApi i st)) = status (issue st)
    \<and> repair_plan_json (issue (analyzeIssue analyzeApi i st)) = repair_plan_json (issue st)
    \<and> analysis (analyzeIssue analyzeApi i st) = analysis st
    \<and> page_error (analyzeIssue analyzeApi i st) = ''Failed to analyze issue. Please try again.''
    \<and> analyzeIssue_P2 analyzeApi getIssue parse i st = analyzeIssue analyzeApi i st"
  using assms by (simp add: analyzeIssue_def analyzeIssue_P2_def)

theorem analysis_failure_leaves_issue_witness:
  "analyzeIssue (\<lambda>i. Inl \<lparr>detail = None, message = Some ''Network Error''\<rparr>) 1
      \<lparr>issue = \<lparr>issue_id = 1, issue_description = ''Dripping tap'', status = ''analyzed'',
                 issue_diagnosis = Some ''Loose handle'', repair_plan_json = Some ''{}''\<rparr>,
       analysis = None, isAnalyzing = True, page_error = [], page_isLoading = False\<rparr>
   = \<lparr>issue = \<lparr>issue_id = 1, issue_description = ''Dripping tap'', status = ''analyzed'',
                 issue_diagnosis = Some ''Loose handle'', repair_plan_json = Some ''{}''\<rparr>,
       analysis = None, isAnalyzing = False,
       page_error = ''Failed to analyze issue. Please try again.'', page_isLoading = False\<rparr>"
  using analysis_failure_leaves_issue
    [of "\<lambda>i. Inl \<lparr>detail = None, message = Some ''Network Error''\<rparr>" 1
        "\<lparr>detail = None, message = Some ''Network Error''\<rparr>"
        "\<lparr>issue = \<lparr>issue_id = 1, issue_description = ''Dripping tap'', status = ''analyzed'',
                 issue_diagnosis = Some ''Loose handle'', repair_plan_json = Some ''{}''\<rparr>,
       analysis = None, isAnalyzing = True, page_error = [], page_isLoading = False\<rparr>"]
  by simp

section \<open>The completion rate\<close>

text \<open>
  Claim C7. For every collection of issues the completion rate is the number of completed
  issues divided by the number of issues, times 100, and 0 when there is no issue; it
  lies between 0 and 100; and for 10 issues of which 3 are completed it is 30.
\<close>

theorem completion_rate_formula:
  "completionRate issues =
     (if totalIssues issues = 0 then 0
      else real (completedIssues issues) / real (totalIssues issues) * 100)
   \<and> (totalIssues issues = 0 \<longrightarrow> completionRate issues = 0)
   \<and> (totalIssues issues = 10 \<and> completedIssues issues = 3 \<longrightarrow> completionRate issues = 30)
   \<and> 0 \<le> completionRate issues \<and> completionRate issues \<le> 100"
proof -
  have le: "completedIssues issues \<le> totalIssues issues"
    by (simp add: completedIssues_def totalIssues_def)
  have "real (completedIssues issues) / real (totalIssues issues) * 100 \<le> 100"
    if "totalIssues issues \<noteq> 0"
  proof -
    from le have "real (completedIssues issues) \<le> real (totalIssues issues)"
      by simp
    with that show ?thesis by (simp add: field_simps)
  qed
  then have "completionRate issues \<le> 100"
    by (simp add: completionRate_def)
  moreover have "0 \<le> completionRate issues" by (simp add: completionRate_def)
  ultimately show ?thesis by (simp add: completionRate_def)
qed

theorem completion_rate_formula_witness:
  "completionRate
     (replicate 3 \<lparr>issue_id = 1, issue_description = ''Dripping tap'', status = ''completed'',
                   issue_diagnosis = None, repair_plan_json = None\<rparr>
      @ replicate 7 \<lparr>issue_id = 2, issue_description = ''Stuck window'', status = ''new'',
                     issue_diagnosis = None, repair_plan_json = None\<rparr>) = 30"
proof -
  have t: "totalIssues
     (replicate 3 \<lparr>issue_id = 1, issue_description = ''Dripping tap'', status = ''completed'',
                   issue_diagnosis = None, repair_plan_json = None\<rparr>
      @ replicate 7 \<lparr>issue_id = 2, issue_description = ''Stuck window'', status = ''new'',
                     issue_diagnosis = None, repair_plan_json = None\<rparr>) = 10"
    by (simp add: totalIssues_def)
  have c: "completedIssues
     (replicate 3 \<lparr>issue_id = 1, issue_description = ''Dripping tap'', status = ''completed'',
                   issue_diagnosis = None, repair_plan_json = None\<rparr>
      @ replicate 7 \<lparr>issue_id = 2, issue_description = ''Stuck window'', status = ''new'',
                     issue_diagnosis = None, repair_plan_json = None\<rparr>) = 3"
    by (simp add: completedIssues_def)
  from t c show ?thesis
    using completion_rate_formula
     [of "replicate 3 \<lparr>issue_id = 1, issue_description = ''Dripping tap'', status = ''completed'',
                   issue_diagnosis = None, repair_plan_json = None\<rparr>
      @ replicate 7 \<lparr>issue_id = 2, issue_description = ''Stuck window'', status = ''new'',
                     issue_diagnosis = None, repair_plan_json = None\<rparr>"]
    by blast
qed

section \<open>Step numbers\<close>

text \<open>
  Claim C8, as amended. One number is shown for each step of a plan. For the step at the
  0-based position \<open>i\<close> it is the position plus one when the step has no \<^verbatim>\<open>step\<close> field
  or the field is 0, and the field's value in every other case.
\<close>

theorem step_label_shown:
  assumes "steps p = Some ss" and "i < length ss"
  shows "length (stepLabels p) = length ss
    \<and> stepLabels p ! i =
        (case step (ss ! i) of
           None \<Rightarrow> int i + 1
         | Some n \<Rightarrow> if n = 0 then int i + 1 else n)"
  using assms by (simp add: stepLabels_def stepLabel_def nth_enumerate_eq split: option.splits)

theorem step_label_shown_witness:
  "stepLabels \<lparr>diagnosis = Some ''Dripping tap'', is_diy = True, recommended_provider = None,
      steps = Some [\<lparr>step = None, instruction = ''Shut off the water''\<rparr>,
                    \<lparr>step = Some 5, instruction = ''Replace the washer''\<rparr>,
                    \<lparr>step = None, instruction = ''Open the valve''\<rparr>]\<rparr> ! 2 = 3"
  using step_label_shown
    [of "\<lparr>diagnosis = Some ''Dripping tap'', is_diy = True, recommended_provider = None,
      steps = Some [\<lparr>step = None, instruction = ''Shut off the water''\<rparr>,
                    \<lparr>step = Some 5, instruction = ''Replace the washer''\<rparr>,
                    \<lparr>step = None, instruction = ''Open the valve''\<rparr>]\<rparr>"
        "[\<lparr>step = None, instruction = ''Shut off the water''\<rparr>,
                    \<lparr>step = Some 5, instruction = ''Replace the washer''\<rparr>,
                    \<lparr>step = None, instruction = ''Open the valve''\<rparr>]" 2]
  by simp

text \<open>
  Claim C8 as stated fails for a step number that is present and 0: with the steps
  numbered 0 and 1 the numbers shown are 1 and 1, the first step's own number being
  replaced by its position.
\<close>

theorem step_zero_counterexample:
  "stepLabels \<lparr>diagnosis = Some ''Dripping tap'', is_diy = True, recommended_provider = None,
      steps = Some [\<lparr>step = Some 0, instruction = ''Shut off the water''\<rparr>,
                    \<lparr>step = Some 1, instruction = ''Replace the washer''\<rparr>]\<rparr> = [1, 1]"
  by code_simp

section \<open>Submitting a new issue\<close>

lemma trim_empty_iff: "trim s = [] \<longleftrightarrow> (\<forall>c \<in> set s. isWhiteSpace c)"
proof
  assume "\<forall>c \<in> set s. isWhiteSpace c"
  then show "trim s = []" by (auto simp: trim_def dest: set_dropWhileD)
next
  assume "trim s = []"
  then have rest: "\<forall>c \<in> set (dropWhile isWhiteSpace s). isWhiteSpace c"
    by (simp add: trim_def)
  have "dropWhile isWhiteSpace s = []"
  proof (rule ccontr)
    assume ne: "dropWhile isWhiteSpace s \<noteq> []"
    then have "\<not> isWhiteSpace (hd (dropWhile isWhiteSpace s))" by (rule hd_dropWhile)
    moreover from ne have "hd (dropWhile isWhiteSpace s) \<in> set (dropWhile isWhiteSpace s)"
      by (rule hd_in_set)
    ultimately show False using rest by blast
  qed
  then show "\<forall>c \<in> set s. isWhiteSpace c" by simp
qed

text \<open>
  Claim C10. When no image is selected, or the description is empty or consists of
  white space only, \<^verbatim>\<open>handleSubmit\<close> sets the error message "Please provide both an
  image and description", sends nothing and changes no other part of the state. An
  issue-creation request is sent only with a selected image and a description that has a
  character other than white space, and it carries that image and that description.
\<close>

theorem submit_needs_image_and_description:
  "(selectedImage st = None \<or> (\<forall>c \<in> set (description st). isWhiteSpace c) \<longrightarrow>
      handleSubmit createIssue st =
        (st\<lparr>upload_error := ''Please provide both an image and description''\<rparr>, []))
   \<and> (CreateIssue fd \<in> set (snd (handleSubmit createIssue st)) \<longrightarrow>
        selectedImage st = Some (form_image fd) \<and> form_description fd = description st
        \<and> (\<exists>c \<in> set (description st). \<not> isWhiteSpace c))"
proof -
  have blank: "handleSubmit createIssue st =
        (st\<lparr>upload_error := ''Please provide both an image and description''\<rparr>, [])"
    if "selectedImage st = None \<or> (\<forall>c \<in> set (description st). isWhiteSpace c)"
    using that by (auto simp: handleSubmit_def trim_empty_iff split: option.splits)
  have sent: "selectedImage st = Some (form_image fd) \<and> form_description fd = description st
        \<and> (\<exists>c \<in> set (description st). \<not> isWhiteSpace c)"
    if "CreateIssue fd \<in> set (snd (handleSubmit createIssue st))"
  proof (cases "selectedImage st = None \<or> (\<forall>c \<in> set (description st). isWhiteSpace c)")
    case True
    with that blank show ?thesis by simp
  next
    case False
    then obtain img where img: "selectedImage st = Some img" by auto
    from False have nb: "trim (description st) \<noteq> []" by (simp add: trim_empty_iff)
    from that img nb have "fd = \<lparr>form_image = img, form_description = description st\<rparr>"
      by (auto simp: handleSubmit_def Let_def split: sum.splits)
    with img False show ?thesis by auto
  qed
  from blank sent show ?thesis by blast
qed

theorem submit_needs_image_and_description_witness:
  "handleSubmit (\<lambda>fd. Inr 12)
      \<lparr>selectedImage = Some ''sink.jpg'', description = ''  '', isRecording = False,
       isUploading = False, upload_error = [], upload_success = []\<rparr>
    = (\<lparr>selectedImage = Some ''sink.jpg'', description = ''  '', isRecording = False,
        isUploading = False, upload_error = ''Please provide both an image and description'',
        upload_success = []\<rparr>, [])"
proof -
  have ws: "\<forall>c \<in> set ''  ''. isWhiteSpace c" by code_simp
  show ?thesis
    using submit_needs_image_and_description
      [of "\<lparr>selectedImage = Some ''sink.jpg'', description = ''  '', isRecording = False,
       isUploading = False, upload_error = [], upload_success = []\<rparr>" "\<lambda>fd. Inr 12"
          "\<lparr>form_image = ''sink.jpg'', form_description = ''  ''\<rparr>"] ws
    by simp
qed

end
